theory Spec2Isabelle
  imports Complex_Main "HOL-Library.Sublist" "HOL-Library.Multiset"
begin

section \<open>Conventions of the embedding\<close>

text \<open>
  The Python services of the measurement engine are embedded function by function.
  Python floats are read as real numbers: every arithmetic step is the exact
  operation and comparisons are the exact comparisons, so rounding error of the
  IEEE doubles, infinities and NaN are outside this development.  Generated
  identifiers (uuid4), log output and formatted note strings are not part of the
  values modelled.  A raised exception is the left injection of a sum.
\<close>

datatype py_error =
    ValueError
  | ZeroDivisionError
  | ImportError
  | FileNotFoundError
  | IndexError
  | OtherError

type_synonym point = "real \<times> real"

section \<open>Sectors and ray casting (measurement\_engine.py, vector\_measurement.py)\<close>

text \<open>
  \<open>Sector\<close> of measurement\_engine.py; the optional cached measurements and the
  free-form metadata play no part in the functions below.
\<close>

record sector =
  sector_id :: string
  file_id :: string
  sector_page_number :: int
  sector_name :: string
  polygon_points :: "point list"

text \<open>
  \<open>Sector.contains_point\<close>: the loop \<open>for i in range(n)\<close> carries the flag
  \<open>inside\<close> and the trailing index \<open>j\<close>, which starts at \<open>n - 1\<close> and is set
  to \<open>i\<close> at the end of each round.  The Python \<open>and\<close> evaluates the quotient only
  when \<open>(yi > y) != (yj > y)\<close>, hence only when \<open>yj \<noteq> yi\<close>: no division by zero
  is reachable.
\<close>

fun contains_point_loop :: "point list \<Rightarrow> real \<Rightarrow> real \<Rightarrow> nat list \<Rightarrow> bool \<times> nat \<Rightarrow> bool \<times> nat" where
  "contains_point_loop pts x y [] st = st"
| "contains_point_loop pts x y (i # is) (inside, j) =
     (let (xi, yi) = pts ! i;
          (xj, yj) = pts ! j
      in contains_point_loop pts x y is
           (if ((yi > y) \<noteq> (yj > y)) \<and> (x < (xj - xi) * (y - yi) / (yj - yi) + xi)
            then \<not> inside else inside, i))"

definition contains_point :: "sector \<Rightarrow> real \<Rightarrow> real \<Rightarrow> bool" where
  "contains_point s x y =
     (let n = length (polygon_points s) in
      if n < 3 then False
      else fst (contains_point_loop (polygon_points s) x y [0..<n] (False, n - 1)))"

text \<open>
  \<open>point_in_polygon\<close> of vector\_measurement.py, written out separately from its
  own source text.
\<close>

fun point_in_polygon_loop :: "real \<Rightarrow> real \<Rightarrow> point list \<Rightarrow> nat list \<Rightarrow> bool \<times> nat \<Rightarrow> bool \<times> nat" where
  "point_in_polygon_loop x y polygon [] st = st"
| "point_in_polygon_loop x y polygon (i # is) (inside, j) =
     (let (xi, yi) = polygon ! i;
          (xj, yj) = polygon ! j;
          inside' = (if ((yi > y) \<noteq> (yj > y)) \<and> (x < (xj - xi) * (y - yi) / (yj - yi) + xi)
                     then \<not> inside else inside)
      in point_in_polygon_loop x y polygon is (inside', i))"

definition point_in_polygon :: "real \<Rightarrow> real \<Rightarrow> point list \<Rightarrow> bool" where
  "point_in_polygon x y polygon_pts =
     (let n = length polygon_pts in
      if n < 3 then False
      else fst (point_in_polygon_loop x y polygon_pts [0..<n] (False, n - 1)))"

section \<open>Shoelace area and perimeter (measurement\_engine.py)\<close>



text \<open>
  \<open>shoelace_perimeter_pixels\<close>: the same wrap-around index, summing the Euclidean
  distance of consecutive vertices; fewer than two points raise \<open>ValueError\<close>.
\<close>

fun shoelace_perimeter_loop :: "point list \<Rightarrow> nat \<Rightarrow> nat list \<Rightarrow> real \<Rightarrow> real" where
  "shoelace_perimeter_loop pts n [] perimeter = perimeter"
| "shoelace_perimeter_loop pts n (i # is) perimeter =
     (let j = (i + 1) mod n;
          (xi, yi) = pts ! i;
          (xj, yj) = pts ! j;
          distance = sqrt ((xj - xi)\<^sup>2 + (yj - yi)\<^sup>2)
      in shoelace_perimeter_loop pts n is (perimeter + distance))"

definition shoelace_perimeter_pixels :: "point list \<Rightarrow> py_error + real" where
  "shoelace_perimeter_pixels pts =
     (let n = length pts in
      if n < 2 then Inl ValueError
      else Inr (shoelace_perimeter_loop pts n [0..<n] 0))"



section \<open>Line segments (vector\_measurement.py)\<close>

text \<open>
  \<open>math.atan2\<close> and \<open>math.degrees\<close> of the Python standard library, as functions on
  the reals: \<open>atan2 y x\<close> is the angle of the point \<open>(x, y)\<close> in \<open>(-\<pi>, \<pi>]\<close>, with
  \<open>atan2 0 0 = 0\<close> as in Python.
\<close>

definition atan2 :: "real \<Rightarrow> real \<Rightarrow> real" where
  "atan2 y x =
     (if 0 < x then arctan (y / x)
      else if x < 0 \<and> 0 \<le> y then arctan (y / x) + pi
      else if x < 0 \<and> y < 0 then arctan (y / x) - pi
      else if 0 < y then pi / 2
      else if y < 0 then - (pi / 2)
      else 0)"


text \<open>\<open>LineSegment\<close> with its derived properties; the metadata dictionary is left out.\<close>

record line_segment =
  x1 :: real
  y1 :: real
  x2 :: real
  y2 :: real
  page_number :: int
  layer :: "string option"
  stroke_width :: "real option"
  color :: "real list option"


definition midpoint :: "line_segment \<Rightarrow> point" where
  "midpoint s = ((x1 s + x2 s) / 2, (y1 s + y2 s) / 2)"


section \<open>Scale context (scale\_calibration.py)\<close>

text \<open>
  \<open>ScaleContext\<close>: the generated \<open>id\<close> and the free-text \<open>notes\<close> are left out.
  \<open>detection_method\<close> holds the string value of the \<open>DetectionMethod\<close> enum.
\<close>

record scale_context =
  sc_file_id :: "string option"
  scale_string :: "string option"
  scale_factor :: "real option"
  pixels_per_meter :: "real option"
  detection_method :: string
  sc_confidence :: real
  source_page :: int
  page_width_points :: "real option"
  page_height_points :: "real option"
  render_dpi :: int
  user_reference_px :: "real option"
  user_reference_m :: "real option"
  is_active :: bool


section \<open>Wall length and drywall area in a sector (vector\_measurement.py)\<close>














section \<open>The end-to-end scenario of the specification\<close>




section \<open>User calibration (scale\_calibration.py, plan\_ingestion.py)\<close>

text \<open>\<open>PageInfo\<close> of plan\_ingestion.py; its field \<open>dpi\<close> is \<open>page_dpi\<close> here, and its pixel sizes carry the prefix \<open>info\<close>.\<close>

record page_info =
  info_page_number :: int
  width_points :: real
  height_points :: real
  info_width_px :: int
  info_height_px :: int
  rotation :: int
  page_dpi :: int
  rendered_path :: "string option"

definition INCHES_PER_METER :: real where
  "INCHES_PER_METER = 39.3701"

text \<open>The dictionary \<open>COMMON_SCALES\<close>, in its insertion order, which the loop follows.\<close>

definition COMMON_SCALES :: "(string \<times> real) list" where
  "COMMON_SCALES =
     [(''1:1'', 1), (''1:2'', 2), (''1:5'', 5), (''1:10'', 10), (''1:20'', 20), (''1:25'', 25),
      (''1:50'', 50), (''1:100'', 100), (''1:200'', 200), (''1:250'', 250), (''1:500'', 500),
      (''1:1000'', 1000)]"

definition compute_pixels_per_meter :: "real \<Rightarrow> real \<Rightarrow> real \<Rightarrow> int \<Rightarrow> py_error + real" where
  "compute_pixels_per_meter scale_fac page_w page_h dpi =
     (if scale_fac \<le> 0 then Inl ValueError
      else Inr ((1 / scale_fac) * INCHES_PER_METER * of_int dpi))"

text \<open>
  \<open>infer_scale_string\<close>: for each common scale the expected factor is computed and the
  relative deviation \<open>abs(ppm - expected) / expected\<close> compared with 5 percent.  The
  quotient is a float division, which raises \<open>ZeroDivisionError\<close> when the expected
  factor is zero.
\<close>

fun infer_scale_string_loop :: "real \<Rightarrow> int \<Rightarrow> (string \<times> real) list \<Rightarrow> py_error + string option" where
  "infer_scale_string_loop ppm dpi [] = Inr None"
| "infer_scale_string_loop ppm dpi ((scale_str, scale_fac) # rest) =
     (case compute_pixels_per_meter scale_fac 0 0 dpi of
        Inl e \<Rightarrow> Inl e
      | Inr expected_ppm \<Rightarrow>
          if expected_ppm = 0 then Inl ZeroDivisionError
          else if \<bar>ppm - expected_ppm\<bar> / expected_ppm < 0.05 then Inr (Some scale_str)
          else infer_scale_string_loop ppm dpi rest)"

definition infer_scale_string :: "real \<Rightarrow> int \<Rightarrow> py_error + string option" where
  "infer_scale_string ppm dpi = infer_scale_string_loop ppm dpi COMMON_SCALES"

definition compute_scale_from_points ::
  "real \<Rightarrow> real \<Rightarrow> int \<Rightarrow> page_info option \<Rightarrow> string option \<Rightarrow> py_error + scale_context" where
  "compute_scale_from_points pixel_distance real_distance_meters page_num page_inf fid =
     (if pixel_distance \<le> 0 then Inl ValueError
      else if real_distance_meters \<le> 0 then Inl ValueError
      else
        let ppm = pixel_distance / real_distance_meters;
            dpi = (case page_inf of Some p \<Rightarrow> page_dpi p | None \<Rightarrow> 150)
        in case infer_scale_string ppm dpi of
             Inl e \<Rightarrow> Inl e
           | Inr scale_str \<Rightarrow>
               Inr \<lparr>sc_file_id = fid,
                    scale_string = scale_str,
                    scale_factor = (case scale_str of None \<Rightarrow> None
                                    | Some s \<Rightarrow> map_of COMMON_SCALES s),
                    pixels_per_meter = Some ppm,
                    detection_method = ''user_calibration'',
                    sc_confidence = 1,
                    source_page = page_num,
                    page_width_points = map_option width_points page_inf,
                    page_height_points = map_option height_points page_inf,
                    render_dpi = dpi,
                    user_reference_px = Some pixel_distance,
                    user_reference_m = Some real_distance_meters,
                    is_active = True\<rparr>)"

section \<open>Wall openings and hatch filtering (wall\_opening\_detector.py)\<close>

text \<open>
  \<open>WallOpening\<close>.  The fields \<open>page_number\<close>, \<open>angle_degrees\<close>, \<open>width_m\<close> and
  \<open>confidence\<close> carry the prefix \<open>wo\<close>; of the metadata dictionary only the key
  \<open>door_type\<close> is ever written.
\<close>

record wall_opening =
  opening_id :: string
  wo_page_number :: int
  center_x :: real
  center_y :: real
  width_px :: real
  wo_angle_degrees :: real
  wall_thickness_px :: real
  wo_width_m :: "real option"
  wo_confidence :: real
  is_door :: bool
  detection_signals :: "string list"
  door_type :: "string option"

type_synonym hatch_region = "int \<times> int \<times> int \<times> int"

text \<open>
  The inner loop of \<open>filter_openings_in_hatch\<close>: \<open>in_hatch\<close> becomes true, and the
  loop breaks, at the first region whose closed box holds the opening's centre.
\<close>

fun in_hatch_loop :: "wall_opening \<Rightarrow> hatch_region list \<Rightarrow> bool" where
  "in_hatch_loop opening [] = False"
| "in_hatch_loop opening ((hx, hy, hw, hh) # rest) =
     (if of_int hx \<le> center_x opening \<and> center_x opening \<le> of_int (hx + hw)
         \<and> of_int hy \<le> center_y opening \<and> center_y opening \<le> of_int (hy + hh)
      then True
      else in_hatch_loop opening rest)"

fun filter_openings_loop :: "wall_opening list \<Rightarrow> hatch_region list \<Rightarrow> wall_opening list \<Rightarrow> wall_opening list" where
  "filter_openings_loop [] hatch_regions filtered = filtered"
| "filter_openings_loop (opening # rest) hatch_regions filtered =
     (if \<not> in_hatch_loop opening hatch_regions
      then filter_openings_loop rest hatch_regions (filtered @ [opening])
      else filter_openings_loop rest hatch_regions filtered)"

definition filter_openings_in_hatch :: "wall_opening list \<Rightarrow> hatch_region list \<Rightarrow> wall_opening list" where
  "filter_openings_in_hatch openings hatch_regions =
     (if hatch_regions = [] then openings
      else filter_openings_loop openings hatch_regions [])"

text \<open>
  The two positions of a centre that the specification of the hatch filter speaks of:
  strictly inside a box, and at least one pixel beyond one of its sides.
\<close>

definition strictly_inside :: "wall_opening \<Rightarrow> hatch_region \<Rightarrow> bool" where
  "strictly_inside opening h =
     (case h of (hx, hy, hw, hh) \<Rightarrow>
        of_int hx < center_x opening \<and> center_x opening < of_int (hx + hw)
        \<and> of_int hy < center_y opening \<and> center_y opening < of_int (hy + hh))"

definition outside_by_1px :: "wall_opening \<Rightarrow> hatch_region \<Rightarrow> bool" where
  "outside_by_1px opening h =
     (case h of (hx, hy, hw, hh) \<Rightarrow>
        center_x opening \<le> of_int hx - 1 \<or> of_int (hx + hw) + 1 \<le> center_x opening
        \<or> center_y opening \<le> of_int hy - 1 \<or> of_int (hy + hh) + 1 \<le> center_y opening)"

text \<open>A candidate opening of 90 px width centred at the given pixel, for the examples.\<close>

definition opening_at :: "real \<Rightarrow> real \<Rightarrow> wall_opening" where
  "opening_at cx cy =
     \<lparr>opening_id = ''opening_1'', wo_page_number = 1, center_x = cx, center_y = cy,
      width_px = 90, wo_angle_degrees = 0, wall_thickness_px = 10, wo_width_m = None,
      wo_confidence = 0.5, is_door = False, detection_signals = [''horizontal_wall''],
      door_type = None\<rparr>"

section \<open>Overlap suppression of detections (cv\_pipeline.py)\<close>












section \<open>Door symbols from vector drawings (vector\_measurement.py)\<close>







text \<open>
  \<open>DoorSymbol\<close>, without the generated \<open>door_id\<close>; the three metadata entries are
  fields.  \<open>page_number\<close>, \<open>width_m\<close>, \<open>label\<close>, \<open>confidence\<close> and
  \<open>detection_method\<close> carry the prefix \<open>door\<close>.
\<close>

record door_symbol =
  door_page_number :: int
  arc_center :: point
  arc_radius_px :: real
  arc_start_angle :: real
  arc_end_angle :: real
  leaf_line :: "line_segment option"
  door_width_m :: "real option"
  door_label :: "string option"
  door_confidence :: real
  door_detection_method :: string
  arc_index :: nat
  line_index :: nat
  door_is_roof_plan :: bool








text \<open>
  The loop of \<open>measure_doors_on_page\<close> that sets \<open>width_m\<close> on every door; the
  quotient raises \<open>ZeroDivisionError\<close> for a scale of zero.
\<close>

fun set_door_widths :: "real \<Rightarrow> door_symbol list \<Rightarrow> py_error + door_symbol list" where
  "set_door_widths ppm [] = Inr []"
| "set_door_widths ppm (door # doors) =
     (if ppm = 0 then Inl ZeroDivisionError
      else case set_door_widths ppm doors of
             Inl e \<Rightarrow> Inl e
           | Inr doors' \<Rightarrow> Inr (door\<lparr>door_width_m := Some (arc_radius_px door / ppm)\<rparr> # doors'))"





section \<open>The wall-opening pipeline (wall\_opening\_detector.py)\<close>

text \<open>
  The collaborators of the pipeline are its environment.  PyMuPDF and OpenCV are
  present or not (the two module flags); \<open>fitz.open\<close> gives the number of pages of
  the document or raises; the rendered page is written to a temporary file;
  \<open>cv2.imread\<close> gives the image read from a path, or \<open>None\<close>; the OpenCV
  computation of \<open>extract_wall_mask\<close> on an image (threshold, distance transform,
  dilation, component filter, closing) gives the mask, here the list of its pixel
  values; \<open>find_wall_openings\<close> and \<open>detect_hatch_regions\<close>, which are built from
  OpenCV's skeleton and Hough transforms, give their lists or raise.  The elapsed time
  of a result is not modelled.
\<close>

type_synonym image = "nat list list"

record cv_env =
  CV2_AVAILABLE :: bool
  WO_FITZ_AVAILABLE :: bool
  fitz_page_count :: "py_error + nat"
  temp_png :: string
  cv2_imread :: "string \<Rightarrow> image option"
  cv2_wall_mask :: "image \<Rightarrow> nat list"
  find_wall_openings :: "nat list \<Rightarrow> int \<Rightarrow> int \<Rightarrow> int \<Rightarrow> py_error + wall_opening list"
  detect_hatch_regions :: "string \<Rightarrow> py_error + hatch_region list"

definition render_pdf_page_high_dpi :: "cv_env \<Rightarrow> int \<Rightarrow> int \<Rightarrow> py_error + string" where
  "render_pdf_page_high_dpi env page_num dpi =
     (if \<not> WO_FITZ_AVAILABLE env then Inl ImportError
      else case fitz_page_count env of
             Inl e \<Rightarrow> Inl e
           | Inr n \<Rightarrow>
               let page_idx = page_num - 1
               in if page_idx < 0 \<or> page_idx \<ge> int n then Inl ValueError
                  else Inr (temp_png env))"

definition extract_wall_mask :: "cv_env \<Rightarrow> string \<Rightarrow> py_error + nat list" where
  "extract_wall_mask env image_path =
     (if \<not> CV2_AVAILABLE env then Inl ImportError
      else case cv2_imread env image_path of
             None \<Rightarrow> Inl ValueError
           | Some img \<Rightarrow> Inr (cv2_wall_mask env img))"

text \<open>
  \<open>validate_door_openings\<close>: the width in metres divides by \<open>pixels_per_meter\<close>; an
  opening inside the range becomes a door, with a confidence by its distance from the
  nearest standard width and a door type by its width.
\<close>

definition DIN_standard_widths :: "real list" where
  "DIN_standard_widths = [0.625, 0.755, 0.885, 1.01, 1.135, 1.26, 1.385, 1.51, 1.76, 2.01]"

definition validate_opening :: "real \<Rightarrow> real list \<Rightarrow> wall_opening \<Rightarrow> wall_opening" where
  "validate_opening width_m standard_widths opening =
     (let min_deviation = Min (set (map (\<lambda>std. \<bar>width_m - std\<bar>) standard_widths));
          (conf, signal) =
             (if min_deviation < 0.05 then (0.9, ''standard_width'')
              else if min_deviation < 0.10 then (0.75, ''near_standard_width'')
              else (0.6, ''non_standard_width''));
          dtype = (if width_m < 0.70 then ''narrow''
                   else if width_m < 0.95 then ''standard''
                   else if width_m < 1.30 then ''wide''
                   else ''double'')
      in opening\<lparr>wo_width_m := Some width_m, is_door := True, wo_confidence := conf,
                  detection_signals := detection_signals opening @ [signal],
                  door_type := Some dtype\<rparr>)"

fun validate_loop ::
  "real \<Rightarrow> real \<Rightarrow> real \<Rightarrow> real list \<Rightarrow> wall_opening list \<Rightarrow> wall_opening list
     \<Rightarrow> py_error + wall_opening list" where
  "validate_loop ppm lo hi standard_widths [] validated = Inr validated"
| "validate_loop ppm lo hi standard_widths (opening # rest) validated =
     (if ppm = 0 then Inl ZeroDivisionError
      else
        let width_m = width_px opening / ppm
        in if lo \<le> width_m \<and> width_m \<le> hi
           then if standard_widths = [] then Inl ValueError
                else validate_loop ppm lo hi standard_widths rest
                       (validated @ [validate_opening width_m standard_widths opening])
           else validate_loop ppm lo hi standard_widths rest validated)"

definition validate_door_openings ::
  "wall_opening list \<Rightarrow> real \<Rightarrow> real \<Rightarrow> real \<Rightarrow> py_error + wall_opening list" where
  "validate_door_openings openings ppm min_door_width_m max_door_width_m =
     validate_loop ppm min_door_width_m max_door_width_m DIN_standard_widths openings []"

text \<open>
  \<open>deduplicate_openings\<close> with its default distance of 50 px: in the stable order of
  descending confidence an opening is kept unless its identifier was used or its centre
  is closer than the distance to a kept opening.
\<close>

fun is_duplicate_loop :: "wall_opening \<Rightarrow> real \<Rightarrow> wall_opening list \<Rightarrow> bool" where
  "is_duplicate_loop opening thr [] = False"
| "is_duplicate_loop opening thr (kept_opening # rest) =
     (let dist = sqrt ((center_x opening - center_x kept_opening)\<^sup>2
                     + (center_y opening - center_y kept_opening)\<^sup>2)
      in if dist < thr then True else is_duplicate_loop opening thr rest)"

fun deduplicate_loop ::
  "real \<Rightarrow> wall_opening list \<Rightarrow> wall_opening list \<times> string set \<Rightarrow> wall_opening list" where
  "deduplicate_loop thr [] (kept, used) = kept"
| "deduplicate_loop thr (opening # rest) (kept, used) =
     (if opening_id opening \<in> used then deduplicate_loop thr rest (kept, used)
      else if \<not> is_duplicate_loop opening thr kept
      then deduplicate_loop thr rest (kept @ [opening], insert (opening_id opening) used)
      else deduplicate_loop thr rest (kept, used))"

definition deduplicate_openings :: "wall_opening list \<Rightarrow> real \<Rightarrow> wall_opening list" where
  "deduplicate_openings openings distance_threshold_px =
     (if length openings \<le> 1 then openings
      else deduplicate_loop distance_threshold_px
             (sort_key (\<lambda>opening. - wo_confidence opening) openings) ([], {}))"

text \<open>\<open>int(x)\<close> of a float: truncation towards zero.\<close>

definition py_int :: "real \<Rightarrow> int" where
  "py_int x = (if 0 \<le> x then \<lfloor>x\<rfloor> else \<lceil>x\<rceil>)"

text \<open>\<open>DoorDetectionResult\<close>, its fields \<open>page_number\<close> and \<open>doors\<close> with the prefix
  \<open>result\<close>; a warning is kept as a tagged value instead of its text.\<close>

datatype warning =
    OpenCV_not_available
  | PyMuPDF_not_available
  | Failed_to_render_PDF py_error
  | No_walls_detected

record door_detection_result =
  result_page_number :: int
  result_doors :: "wall_opening list"
  total_openings_analyzed :: nat
  wall_mask_generated :: bool
  hatch_regions_filtered :: nat
  warnings :: "warning list"
  debug_images :: "(string \<times> string) list"

definition empty_result :: "int \<Rightarrow> warning list \<Rightarrow> door_detection_result" where
  "empty_result page_num ws =
     \<lparr>result_page_number = page_num, result_doors = [], total_openings_analyzed = 0,
      wall_mask_generated = False, hatch_regions_filtered = 0, warnings = ws,
      debug_images = []\<rparr>"

text \<open>
  \<open>detect_doors_from_wall_openings\<close>.  The two availability checks return early.  The
  scale factor is computed before any \<open>try\<close>: \<open>1.0 / scale\<close> raises for a scale of
  zero.  The rendering stands in a \<open>try\<close> with \<open>except Exception\<close>.  Everything after
  it stands in a \<open>try\<close> that has a \<open>finally\<close> clause only (the removal of the temporary
  image), so an exception of \<open>extract_wall_mask\<close> or of a later step leaves the
  function.
\<close>

definition detect_doors_from_wall_openings ::
  "cv_env \<Rightarrow> int \<Rightarrow> int \<Rightarrow> int \<Rightarrow> real \<Rightarrow> real \<Rightarrow> string option
     \<Rightarrow> py_error + door_detection_result" where
  "detect_doors_from_wall_openings env page_num scale dpi min_door_width_m max_door_width_m
     debug_output_dir =
     (if \<not> CV2_AVAILABLE env then Inr (empty_result page_num [OpenCV_not_available])
      else if \<not> WO_FITZ_AVAILABLE env then Inr (empty_result page_num [PyMuPDF_not_available])
      else if scale = 0 then Inl ZeroDivisionError
      else
        let paper_meters_per_real_meter = 1 / of_int scale;
            inches_per_paper_meter = 1 / 0.0254;
            ppm = paper_meters_per_real_meter * inches_per_paper_meter * of_int dpi
        in case render_pdf_page_high_dpi env page_num dpi of
             Inl e \<Rightarrow> Inr (empty_result page_num [Failed_to_render_PDF e])
           | Inr image_path \<Rightarrow>
               let dbg = (case debug_output_dir of
                            Some dir \<Rightarrow> if dir \<noteq> [] then [(''rendered'', image_path)] else []
                          | None \<Rightarrow> [])
               in case extract_wall_mask env image_path of
                    Inl e \<Rightarrow> Inl e
                  | Inr wall_mask \<Rightarrow>
                      if sum_list wall_mask = 0
                      then Inr (empty_result page_num [No_walls_detected])
                      else
                        let min_opening_px = py_int (min_door_width_m * ppm);
                            max_opening_px = py_int (max_door_width_m * ppm)
                        in case find_wall_openings env wall_mask min_opening_px max_opening_px
                                  page_num of
                             Inl e \<Rightarrow> Inl e
                           | Inr openings \<Rightarrow>
                               let total_openings = length openings
                               in case detect_hatch_regions env image_path of
                                    Inl e \<Rightarrow> Inl e
                                  | Inr hatch_regions \<Rightarrow>
                                      let hatch_filtered = length hatch_regions;
                                          openings' =
                                            (if hatch_regions \<noteq> []
                                             then filter_openings_in_hatch openings hatch_regions
                                             else openings)
                                      in case validate_door_openings openings' ppm
                                                min_door_width_m max_door_width_m of
                                           Inl e \<Rightarrow> Inl e
                                         | Inr validated \<Rightarrow>
                                             Inr \<lparr>result_page_number = page_num,
                                                  result_doors = deduplicate_openings validated 50,
                                                  total_openings_analyzed = total_openings,
                                                  wall_mask_generated = True,
                                                  hatch_regions_filtered = hatch_filtered,
                                                  warnings = [],
                                                  debug_images = dbg\<rparr>)"

text \<open>
  An environment for the examples: both libraries present, a one-page document, the
  page rendered to a temporary file that \<open>cv2.imread\<close> cannot load.
\<close>

definition unreadable_render_env :: cv_env where
  "unreadable_render_env =
     \<lparr>CV2_AVAILABLE = True, WO_FITZ_AVAILABLE = True, fitz_page_count = Inr 1,
      temp_png = ''/tmp/page.png'', cv2_imread = (\<lambda>path. None),
      cv2_wall_mask = (\<lambda>img. []), find_wall_openings = (\<lambda>wm lo hi pn. Inr []),
      detect_hatch_regions = (\<lambda>path. Inr [])\<rparr>"

section \<open>Ray casting: the two implementations agree\<close>

lemma ray_loops_agree:
  "contains_point_loop pts x y is st = point_in_polygon_loop x y pts is st"
proof (induction "is" arbitrary: st)
  case Nil
  show ?case by simp
next
  case (Cons i "is")
  obtain inside j where st: "st = (inside, j)" by (cases st)
  show ?case
    unfolding st by (simp add: Cons.IH Let_def split: prod.split)
qed

text \<open>
  C9.  For every point and every vertex list, \<open>Sector.contains_point\<close> and the free
  function \<open>point_in_polygon\<close> return the same boolean; with fewer than three
  vertices both return \<open>False\<close>.
\<close>

theorem contains_point_eq_point_in_polygon:
  "contains_point s x y = point_in_polygon x y (polygon_points s)
   \<and> (length (polygon_points s) < 3 \<longrightarrow>
        contains_point s x y = False \<and> point_in_polygon x y (polygon_points s) = False)"
  by (simp add: contains_point_def point_in_polygon_def ray_loops_agree Let_def)

theorem contains_point_eq_point_in_polygon_witness:
  "contains_point \<lparr>sector_id = ''s1'', file_id = ''f1'', sector_page_number = 1,
       sector_name = ''Room'', polygon_points = [(0, 0), (100, 0), (100, 100), (0, 100)]\<rparr> 50 50
     = point_in_polygon 50 50 [(0, 0), (100, 0), (100, 100), (0, 100)]
   \<and> point_in_polygon 50 50 [(0, 0), (100, 0), (100, 100), (0, 100)] = True
   \<and> length [(0, 0), (100, 100 :: real)] < 3
   \<and> contains_point \<lparr>sector_id = ''s2'', file_id = ''f1'', sector_page_number = 1,
       sector_name = ''Line'', polygon_points = [(0, 0), (100, 100)]\<rparr> 50 50 = False
   \<and> point_in_polygon 50 50 [(0, 0), (100, 100)] = False"
proof -
  have a: "point_in_polygon 50 50 [(0, 0), (100, 0), (100, 100), (0, 100)] = True"
    by (simp add: point_in_polygon_def upt_rec)
  show ?thesis
    using a
      contains_point_eq_point_in_polygon [of "\<lparr>sector_id = ''s1'', file_id = ''f1'',
        sector_page_number = 1, sector_name = ''Room'',
        polygon_points = [(0, 0), (100, 0), (100, 100), (0, 100)]\<rparr>" 50 50]
      contains_point_eq_point_in_polygon [of "\<lparr>sector_id = ''s2'', file_id = ''f1'',
        sector_page_number = 1, sector_name = ''Line'',
        polygon_points = [(0, 0), (100, 100)]\<rparr>" 50 50]
    by simp
qed

section \<open>Shoelace formula: reversal and rotation\<close>











text \<open>
  C10.  For exactly two points \<open>shoelace_perimeter_pixels\<close> does not raise and returns
  twice the Euclidean distance of the two points: the wrap-around edge runs over the
  same segment again.
\<close>

theorem shoelace_perimeter_pixels_two_points:
  "shoelace_perimeter_pixels [(px, py), (qx, qy)] = Inr (2 * sqrt ((qx - px)\<^sup>2 + (qy - py)\<^sup>2))"
  by (simp add: shoelace_perimeter_pixels_def upt_rec power2_commute [of px qx]
      power2_commute [of py qy])

section \<open>Angle of a line segment\<close>





text \<open>
  The function \<open>atan2\<close> above is the angle of the point: away from the origin its
  value lies in \<open>(-\<pi>, \<pi>]\<close> (lemma \<open>atan2_range\<close>) and has the cosine and sine of
  the point's direction.
\<close>

lemma hypotenuse_positive: "x \<noteq> 0 \<or> y \<noteq> 0 \<Longrightarrow> 0 < sqrt (x\<^sup>2 + y\<^sup>2)" for x y :: real
  by (auto simp: sum_power2_gt_zero_iff)

lemma cos_arctan_div:
  assumes "x \<noteq> 0"
  shows "cos (arctan (y / x)) = \<bar>x\<bar> / sqrt (x\<^sup>2 + y\<^sup>2)"
proof -
  have "1 + (y / x)\<^sup>2 = (x\<^sup>2 + y\<^sup>2) / x\<^sup>2"
    using assms by (simp add: field_simps power2_eq_square)
  then have "sqrt (1 + (y / x)\<^sup>2) = sqrt (x\<^sup>2 + y\<^sup>2) / \<bar>x\<bar>"
    by (simp add: real_sqrt_divide)
  then show ?thesis
    by (simp add: cos_arctan)
qed

lemma sin_arctan_div:
  assumes "x \<noteq> 0"
  shows "sin (arctan (y / x)) = (y / x) * \<bar>x\<bar> / sqrt (x\<^sup>2 + y\<^sup>2)"
proof -
  have "1 + (y / x)\<^sup>2 = (x\<^sup>2 + y\<^sup>2) / x\<^sup>2"
    using assms by (simp add: field_simps power2_eq_square)
  then have "sqrt (1 + (y / x)\<^sup>2) = sqrt (x\<^sup>2 + y\<^sup>2) / \<bar>x\<bar>"
    by (simp add: real_sqrt_divide)
  then show ?thesis
    by (simp add: sin_arctan)
qed

lemma atan2_polar:
  assumes "x \<noteq> 0 \<or> y \<noteq> 0"
  shows "sqrt (x\<^sup>2 + y\<^sup>2) * cos (atan2 y x) = x \<and> sqrt (x\<^sup>2 + y\<^sup>2) * sin (atan2 y x) = y"
proof -
  have h: "0 < sqrt (x\<^sup>2 + y\<^sup>2)" using assms by (rule hypotenuse_positive)
  consider "0 < x" | "x < 0" "0 \<le> y" | "x < 0" "y < 0" | "x = 0" "0 < y" | "x = 0" "y < 0"
    using assms by linarith
  then show ?thesis
  proof cases
    case 1
    then show ?thesis using h by (simp add: atan2_def cos_arctan_div sin_arctan_div)
  next
    case 2
    then show ?thesis using h by (simp add: atan2_def cos_arctan_div sin_arctan_div)
  next
    case 3
    then show ?thesis using h by (simp add: atan2_def cos_arctan_div sin_arctan_div)
  next
    case 4
    then show ?thesis by (simp add: atan2_def)
  next
    case 5
    then show ?thesis by (simp add: atan2_def)
  qed
qed





section \<open>Wall length in a sector\<close>










section \<open>User calibration\<close>

lemma infer_scale_string_loop_not_ValueError:
  "\<forall>(s, f) \<in> set scales. 0 < f \<Longrightarrow> infer_scale_string_loop ppm dpi scales \<noteq> Inl ValueError"
  by (induction scales) (auto simp: compute_pixels_per_meter_def split: if_splits)

lemma infer_scale_string_loop_returns:
  "\<forall>(s, f) \<in> set scales. 0 < f \<Longrightarrow> dpi \<noteq> 0 \<Longrightarrow>
   \<exists>r. infer_scale_string_loop ppm dpi scales = Inr r"
  by (induction scales) (auto simp: compute_pixels_per_meter_def INCHES_PER_METER_def)

lemma COMMON_SCALES_positive: "\<forall>(s, f) \<in> set COMMON_SCALES. 0 < f"
  by (simp add: COMMON_SCALES_def)

lemma infer_scale_string_not_ValueError: "infer_scale_string ppm dpi \<noteq> Inl ValueError"
  unfolding infer_scale_string_def
  by (rule infer_scale_string_loop_not_ValueError) (rule COMMON_SCALES_positive)

lemma infer_scale_string_returns: "dpi \<noteq> 0 \<Longrightarrow> \<exists>r. infer_scale_string ppm dpi = Inr r"
  unfolding infer_scale_string_def
  by (rule infer_scale_string_loop_returns) (rule COMMON_SCALES_positive)

lemma compute_scale_from_points_ValueError_iff:
  "(compute_scale_from_points pd rd pn pinf fid = Inl ValueError) = (pd \<le> 0 \<or> rd \<le> 0)"
  using infer_scale_string_not_ValueError
    [of "pd / rd" "case pinf of Some p \<Rightarrow> page_dpi p | None \<Rightarrow> 150"]
  by (auto simp: compute_scale_from_points_def Let_def split: sum.splits)

lemma compute_scale_from_points_positive:
  assumes "0 < pd" and "0 < rd" and "(case pinf of Some p \<Rightarrow> page_dpi p | None \<Rightarrow> 150) \<noteq> 0"
  shows "map_sum id (\<lambda>c. (pixels_per_meter c, detection_method c, sc_confidence c))
           (compute_scale_from_points pd rd pn pinf fid)
         = Inr (Some (pd / rd), ''user_calibration'', 1)"
proof -
  obtain r where "infer_scale_string (pd / rd) (case pinf of Some p \<Rightarrow> page_dpi p | None \<Rightarrow> 150) = Inr r"
    using infer_scale_string_returns [OF assms(3)] by blast
  then show ?thesis
    using assms(1,2) by (simp add: compute_scale_from_points_def Let_def)
qed

lemma compute_scale_from_points_90:
  "map_sum id pixels_per_meter (compute_scale_from_points 90 0.9 1 None None) = Inr (Some 100)"
  using compute_scale_from_points_positive [of 90 "0.9" None 1 None]
  by (cases "compute_scale_from_points 90 0.9 1 None None") simp_all

text \<open>
  C2, as the code has it.  \<open>compute_scale_from_points\<close> raises \<open>ValueError\<close> if and only
  if \<open>pixel_distance \<le> 0\<close> or \<open>real_distance_meters \<le> 0\<close>.  For positive inputs, and a
  page whose rendering DPI is not zero (150 when no page information is passed), it
  returns a scale context with \<open>pixels_per_meter = pixel_distance /
  real_distance_meters\<close>, the detection method \<open>user_calibration\<close> and confidence 1; the
  inputs \<open>(90, 0.9)\<close> give exactly 100.
\<close>

theorem compute_scale_from_points_spec:
  "(compute_scale_from_points pd rd pn pinf fid = Inl ValueError) = (pd \<le> 0 \<or> rd \<le> 0)
   \<and> (0 < pd \<and> 0 < rd \<and> (case pinf of Some p \<Rightarrow> page_dpi p | None \<Rightarrow> 150) \<noteq> 0 \<longrightarrow>
        map_sum id (\<lambda>c. (pixels_per_meter c, detection_method c, sc_confidence c))
          (compute_scale_from_points pd rd pn pinf fid)
        = Inr (Some (pd / rd), ''user_calibration'', 1))
   \<and> map_sum id pixels_per_meter (compute_scale_from_points 90 0.9 1 None None) = Inr (Some 100)"
  using compute_scale_from_points_ValueError_iff [of pd rd pn pinf fid]
    compute_scale_from_points_positive [of pd rd pinf pn fid]
    compute_scale_from_points_90
  by blast

theorem compute_scale_from_points_spec_witness:
  "(0 :: real) < 150 \<and> (0 :: real) < 2.5
   \<and> (case Some \<lparr>info_page_number = 2, width_points = 595, height_points = 842,
          info_width_px = 1240, info_height_px = 1754, rotation = 0, page_dpi = 150,
          rendered_path = None\<rparr> of Some p \<Rightarrow> page_dpi p | None \<Rightarrow> 150) \<noteq> 0
   \<and> map_sum id (\<lambda>c. (pixels_per_meter c, detection_method c, sc_confidence c))
        (compute_scale_from_points 150 2.5 2
           (Some \<lparr>info_page_number = 2, width_points = 595, height_points = 842,
              info_width_px = 1240, info_height_px = 1754, rotation = 0, page_dpi = 150,
              rendered_path = None\<rparr>) (Some ''my-file-123''))
      = Inr (Some 60, ''user_calibration'', 1)
   \<and> compute_scale_from_points 0 1 1 None None = Inl ValueError
   \<and> compute_scale_from_points 100 0 1 None None = Inl ValueError"
proof -
  note t = compute_scale_from_points_spec [of 150 "2.5" 2
      "Some \<lparr>info_page_number = 2, width_points = 595, height_points = 842,
          info_width_px = 1240, info_height_px = 1754, rotation = 0, page_dpi = 150,
          rendered_path = None\<rparr>" "Some ''my-file-123''"]
  note u = compute_scale_from_points_spec [of 0 1 1 None None]
  note v = compute_scale_from_points_spec [of 100 0 1 None None]
  have a: "compute_scale_from_points 0 1 1 None None = Inl ValueError" using u by simp
  have b: "compute_scale_from_points 100 0 1 None None = Inl ValueError" using v by simp
  from t a b show ?thesis by simp
qed

text \<open>
  With the positive inputs \<open>(90, 0.9)\<close> and a page whose \<open>dpi\<close> is 0, the expected
  factor of the first common scale is 0 and the relative deviation divides by it: the
  call raises \<open>ZeroDivisionError\<close> and returns no scale context.
\<close>

theorem compute_scale_from_points_dpi_zero_counterexample:
  "(0 :: real) < 90 \<and> (0 :: real) < 0.9
   \<and> compute_scale_from_points 90 0.9 1
        (Some \<lparr>info_page_number = 1, width_points = 595, height_points = 842,
           info_width_px = 0, info_height_px = 0, rotation = 0, page_dpi = 0,
           rendered_path = None\<rparr>) None = Inl ZeroDivisionError"
  by (simp add: compute_scale_from_points_def infer_scale_string_def COMMON_SCALES_def
      compute_pixels_per_meter_def)

section \<open>Hatch filtering\<close>

lemma filter_openings_loop_closed:
  "filter_openings_loop openings hatch acc
     = acc @ filter (\<lambda>opening. \<not> in_hatch_loop opening hatch) openings"
  by (induction openings arbitrary: acc) simp_all

lemma filter_openings_in_hatch_closed:
  "filter_openings_in_hatch openings hatch
     = filter (\<lambda>opening. \<not> in_hatch_loop opening hatch) openings"
  by (cases hatch) (simp_all add: filter_openings_in_hatch_def filter_openings_loop_closed)

lemma in_hatch_loop_strictly_inside:
  "h \<in> set hatch \<Longrightarrow> strictly_inside opening h \<Longrightarrow> in_hatch_loop opening hatch"
  by (induction hatch) (auto simp: strictly_inside_def)

lemma in_hatch_loop_outside:
  "list_all (outside_by_1px opening) hatch \<Longrightarrow> \<not> in_hatch_loop opening hatch"
  by (induction hatch) (auto simp: outside_by_1px_def)

text \<open>
  C5.  \<open>filter_openings_in_hatch\<close> keeps exactly the openings whose centre lies in no
  closed hatch box, unchanged and in their order (the result is the input filtered, hence
  a subsequence of it).  So an opening whose centre is strictly inside some hatch box
  is not in the result, an opening of the input whose centre is one pixel or more
  outside every hatch box is in the result, and with no hatch region the input is returned
  as it is.
\<close>

theorem filter_openings_in_hatch_spec:
  "filter_openings_in_hatch openings hatch
     = filter (\<lambda>opening. \<not> in_hatch_loop opening hatch) openings
   \<and> subseq (filter_openings_in_hatch openings hatch) openings
   \<and> (h \<in> set hatch \<and> strictly_inside opening h \<longrightarrow>
        opening \<notin> set (filter_openings_in_hatch openings hatch))
   \<and> (opening \<in> set openings \<and> list_all (outside_by_1px opening) hatch \<longrightarrow>
        opening \<in> set (filter_openings_in_hatch openings hatch))
   \<and> filter_openings_in_hatch openings [] = openings"
proof -
  have a: "filter_openings_in_hatch openings hatch
     = filter (\<lambda>opening. \<not> in_hatch_loop opening hatch) openings"
    by (rule filter_openings_in_hatch_closed)
  have b: "subseq (filter_openings_in_hatch openings hatch) openings"
    unfolding a by simp
  have c: "h \<in> set hatch \<and> strictly_inside opening h \<longrightarrow>
        opening \<notin> set (filter_openings_in_hatch openings hatch)"
    unfolding a using in_hatch_loop_strictly_inside [of h hatch "opening"] by auto
  have d: "opening \<in> set openings \<and> list_all (outside_by_1px opening) hatch \<longrightarrow>
        opening \<in> set (filter_openings_in_hatch openings hatch)"
    unfolding a using in_hatch_loop_outside [of "opening" hatch] by auto
  have e: "filter_openings_in_hatch openings [] = openings"
    by (simp add: filter_openings_in_hatch_def)
  from a b c d e show ?thesis by (intro conjI)
qed

theorem filter_openings_in_hatch_spec_witness:
  "(100, 100, 50, 50) \<in> set [(100, 100, 50, 50) :: hatch_region]
   \<and> strictly_inside (opening_at 120 120) (100, 100, 50, 50)
   \<and> opening_at 120 120 \<notin> set (filter_openings_in_hatch
         [opening_at 120 120, opening_at 151 120] [(100, 100, 50, 50)])
   \<and> opening_at 151 120 \<in> set [opening_at 120 120, opening_at 151 120]
   \<and> list_all (outside_by_1px (opening_at 151 120)) [(100, 100, 50, 50)]
   \<and> opening_at 151 120 \<in> set (filter_openings_in_hatch
         [opening_at 120 120, opening_at 151 120] [(100, 100, 50, 50)])
   \<and> filter_openings_in_hatch [opening_at 120 120, opening_at 151 120] [(100, 100, 50, 50)]
       = [opening_at 151 120]"
proof -
  have h1: "(100, 100, 50, 50) \<in> set [(100, 100, 50, 50) :: hatch_region]" by simp
  have h2: "strictly_inside (opening_at 120 120) (100, 100, 50, 50)"
    by (simp add: strictly_inside_def opening_at_def)
  have h3: "opening_at 151 120 \<in> set [opening_at 120 120, opening_at 151 120]" by simp
  have h4: "list_all (outside_by_1px (opening_at 151 120)) [(100, 100, 50, 50)]"
    by (simp add: outside_by_1px_def opening_at_def)
  note t1 = filter_openings_in_hatch_spec [of "[opening_at 120 120, opening_at 151 120]"
      "[(100, 100, 50, 50)]" "(100, 100, 50, 50)" "opening_at 120 120"]
  note t2 = filter_openings_in_hatch_spec [of "[opening_at 120 120, opening_at 151 120]"
      "[(100, 100, 50, 50)]" "(100, 100, 50, 50)" "opening_at 151 120"]
  have r1: "opening_at 120 120 \<notin> set (filter_openings_in_hatch
         [opening_at 120 120, opening_at 151 120] [(100, 100, 50, 50)])"
    using t1 h1 h2 by blast
  have r2: "opening_at 151 120 \<in> set (filter_openings_in_hatch
         [opening_at 120 120, opening_at 151 120] [(100, 100, 50, 50)])"
    using t2 h3 h4 by blast
  have r3: "filter_openings_in_hatch [opening_at 120 120, opening_at 151 120]
       [(100, 100, 50, 50)] = [opening_at 151 120]"
    by (simp add: filter_openings_in_hatch_def opening_at_def)
  from h1 h2 r1 h3 h4 r2 r3 show ?thesis by (intro conjI)
qed

section \<open>Overlap suppression\<close>





















section \<open>Door widths\<close>


lemma sqrt_greater_5_iff: "5 < sqrt x \<longleftrightarrow> 25 < x"
  using real_sqrt_less_iff [of 25 x] by simp








lemma set_door_widths_returns:
  "ppm \<noteq> 0 \<Longrightarrow> set_door_widths ppm doors
     = Inr (map (\<lambda>door. door\<lparr>door_width_m := Some (arc_radius_px door / ppm)\<rparr>) doors)"
  by (induction doors) simp_all










section \<open>Failure semantics of the wall-opening pipeline\<close>

text \<open>
  The four handled conditions give an empty result with one warning: OpenCV missing,
  PyMuPDF missing, a failed rendering (for a scale other than zero), and a mask without
  wall pixels.
\<close>

lemma detect_doors_degrades:
  "\<not> CV2_AVAILABLE env \<Longrightarrow>
     detect_doors_from_wall_openings env pn scale dpi lo hi dbg
       = Inr (empty_result pn [OpenCV_not_available])"
  "CV2_AVAILABLE env \<Longrightarrow> \<not> WO_FITZ_AVAILABLE env \<Longrightarrow>
     detect_doors_from_wall_openings env pn scale dpi lo hi dbg
       = Inr (empty_result pn [PyMuPDF_not_available])"
  "CV2_AVAILABLE env \<Longrightarrow> WO_FITZ_AVAILABLE env \<Longrightarrow> scale \<noteq> 0 \<Longrightarrow>
   render_pdf_page_high_dpi env pn dpi = Inl e \<Longrightarrow>
     detect_doors_from_wall_openings env pn scale dpi lo hi dbg
       = Inr (empty_result pn [Failed_to_render_PDF e])"
  "CV2_AVAILABLE env \<Longrightarrow> WO_FITZ_AVAILABLE env \<Longrightarrow> scale \<noteq> 0 \<Longrightarrow>
   render_pdf_page_high_dpi env pn dpi = Inr path \<Longrightarrow>
   extract_wall_mask env path = Inr wm \<Longrightarrow> sum_list wm = 0 \<Longrightarrow>
     detect_doors_from_wall_openings env pn scale dpi lo hi dbg
       = Inr (empty_result pn [No_walls_detected])"
  by (simp_all add: detect_doors_from_wall_openings_def Let_def)

text \<open>
  C8 at its failing inputs.  With both libraries present, the page rendered, and the
  rendered image unreadable for \<open>cv2.imread\<close>, \<open>extract_wall_mask\<close> raises
  \<open>ValueError\<close> and \<open>detect_doors_from_wall_openings\<close> raises it too, where the
  specification has an empty result with a warning.  With a scale of zero the function
  raises \<open>ZeroDivisionError\<close> before it renders anything.
\<close>

theorem detect_doors_from_wall_openings_raises:
  "render_pdf_page_high_dpi unreadable_render_env 1 400 = Inr ''/tmp/page.png''
   \<and> extract_wall_mask unreadable_render_env ''/tmp/page.png'' = Inl ValueError
   \<and> detect_doors_from_wall_openings unreadable_render_env 1 100 400 0.60 2.20 None
       = Inl ValueError
   \<and> detect_doors_from_wall_openings unreadable_render_env 1 0 400 0.60 2.20 None
       = Inl ZeroDivisionError"
  by (simp add: detect_doors_from_wall_openings_def render_pdf_page_high_dpi_def
      extract_wall_mask_def unreadable_render_env_def Let_def)

end
